theory Spec2Isabelle
  imports Main "HOL-Library.Word"
begin

section \<open>The httpclient package: data model\<close>

text \<open>
  The package wraps Go's \<^verbatim>\<open>net/http\<close> client with JSON encoding of request bodies,
  JSON decoding of response bodies and functional options. The embedding follows
  \<^verbatim>\<open>client.go\<close>, \<^verbatim>\<open>options.go\<close> and \<^verbatim>\<open>default_client.go\<close> function by function.

  Effects are explicit. Memory that the caller hands in by pointer (the status sink
  \<^verbatim>\<open>*int\<close> and the result sink) is a store from addresses to values, so that two
  pointers may be the same cell. Every call to a collaborator (marshal function,
  transport, unmarshal function) and the status write are logged as events, in
  program order, which makes "is never invoked" a statement about the log.
\<close>

type_synonym byte = "8 word"
type_synonym bytes = "byte list"
type_synonym addr = nat

text \<open>
  A Go value of type \<^verbatim>\<open>interface{}\<close>, as far as the package can tell values apart:
  the nil interface, an \<^verbatim>\<open>int\<close>, a \<^verbatim>\<open>[]byte\<close>, or a value of any other dynamic type.
\<close>

datatype 'v any = AnyNil | AnyInt int | AnyBytes bytes | AnyVal 'v

text \<open>
  Go errors. \<open>Error msg\<close> is \<^verbatim>\<open>errors.New(msg)\<close> or a \<^verbatim>\<open>fmt.Errorf\<close> without a cause;
  \<open>Wrap msg e\<close> is \<^verbatim>\<open>fmt.Errorf(msg + ": %w", e)\<close>.
\<close>

datatype error = Error string | Wrap string error

text \<open>\<^verbatim>\<open>context.Context\<close> is an opaque handle.\<close>

datatype "context" = Context nat

text \<open>
  \<^verbatim>\<open>http.Header\<close> is \<^verbatim>\<open>map[string][]string\<close>. An \<^verbatim>\<open>*http.Request\<close> carries the context,
  the verb, the URL, the body bytes of the buffer it was built from, and the header.
\<close>

type_synonym header = "string \<rightharpoonup> string list"

record request =
  Ctx :: "context"
  Method :: string
  URL :: string
  Body :: bytes
  Header :: header

text \<open>
  An \<^verbatim>\<open>*http.Response\<close>: \<open>StatusCode\<close> is \<^verbatim>\<open>resp.StatusCode\<close>, \<open>StatusLine\<close> is
  \<^verbatim>\<open>resp.Status\<close> (for example "404 Not Found"), and \<open>ReadAll\<close> is what
  \<^verbatim>\<open>io.ReadAll(resp.Body)\<close> yields: the bytes of the stream, or a read error.
\<close>

record response =
  StatusCode :: int
  StatusLine :: string
  ReadAll :: "error + bytes"

text \<open>
  \<^verbatim>\<open>type Options struct\<close>. \<open>Headers\<close> is a Go map, \<open>None\<close> when nil. \<open>Status\<close> is the
  \<^verbatim>\<open>*int\<close> status sink and \<open>Client\<close> the \<^verbatim>\<open>*http.Client\<close> of this request only, each
  \<open>None\<close> when nil.
\<close>

record options =
  Headers :: "(string \<rightharpoonup> string) option"
  Status :: "addr option"
  Client :: "addr option"

text \<open>\<^verbatim>\<open>type Option func(*Options)\<close>: a mutator, here a function on the record.\<close>

type_synonym Option = "options \<Rightarrow> options"

text \<open>
  \<^verbatim>\<open>type Client struct\<close>. \<open>HTTPClient\<close> is the field \<^verbatim>\<open>Client *http.Client\<close> (renamed,
  since \<open>Client\<close> is the field of \<open>options\<close>). A marshal function returns bytes or an
  error. An unmarshal function receives the data and the value its target points to,
  and returns its error (if any) together with the value it leaves in the target:
  Go's \<^verbatim>\<open>json.Unmarshal\<close> may have written to the target when it fails.
\<close>

type_synonym 'v marshal_fn = "'v any \<Rightarrow> error + bytes"
type_synonym 'v unmarshal_fn = "bytes \<Rightarrow> 'v any \<Rightarrow> error option \<times> 'v any"

record 'v client =
  HTTPClient :: "addr option"
  MarshalFunc :: "'v marshal_fn option"
  UnmarshalFunc :: "'v unmarshal_fn option"

text \<open>
  What the package takes from Go's standard library and runtime, as parameters:
  \<^item> \<open>json_Marshal\<close>, \<open>json_Unmarshal\<close>: \<^verbatim>\<open>encoding/json\<close>;
  \<^item> \<open>CanonicalMIMEHeaderKey\<close>: the key normalisation of \<^verbatim>\<open>http.Header.Set\<close>;
  \<^item> \<open>range_order\<close>: the order in which a \<^verbatim>\<open>for ... range\<close> loop enumerates the keys
    of a map, which Go leaves unspecified;
  \<^item> \<open>NewRequest_error\<close>: the validation of \<^verbatim>\<open>http.NewRequestWithContext\<close> (context,
    method, URL), \<open>None\<close> when it accepts;
  \<^item> \<open>http_DefaultClient\<close>: the pointer \<^verbatim>\<open>http.DefaultClient\<close>;
  \<^item> \<open>http_Do\<close>: \<^verbatim>\<open>(*http.Client).Do\<close>, the transport.
\<close>

record 'v env =
  json_Marshal :: "'v marshal_fn"
  json_Unmarshal :: "'v unmarshal_fn"
  CanonicalMIMEHeaderKey :: "string \<Rightarrow> string"
  range_order :: "(string \<rightharpoonup> string) \<Rightarrow> string list"
  NewRequest_error :: "context \<Rightarrow> string \<Rightarrow> string \<Rightarrow> error option"
  http_DefaultClient :: addr
  http_Do :: "addr \<Rightarrow> request \<Rightarrow> error + response"

text \<open>
  The log of effects: each call to a collaborator with what it returned, the write to
  the status sink, and the closing of the response body. Then what a call leaves behind.
\<close>

datatype 'v event =
    EvMarshal "'v any" "error + bytes"
  | EvDo addr request "error + response"
  | EvSetStatus addr int
  | EvUnmarshal bytes addr "error option"
  | EvClose

record 'v outcome =
  ret :: "error option"
  mem :: "addr \<Rightarrow> 'v any"
  calls :: "'v event list"

section \<open>options.go\<close>

definition WithHeaders :: "(string \<rightharpoonup> string) option \<Rightarrow> Option" where
  "WithHeaders headers = (\<lambda>os. os\<lparr>Headers := headers\<rparr>)"

definition WithHeader :: "string \<Rightarrow> string \<Rightarrow> Option" where
  "WithHeader key value = (\<lambda>os.
     (case Headers os of
        None \<Rightarrow> os\<lparr>Headers := Some (Map.empty(key \<mapsto> value))\<rparr>
      | Some m \<Rightarrow> os\<lparr>Headers := Some (m(key \<mapsto> value))\<rparr>))"

definition WithStatus :: "addr option \<Rightarrow> Option" where
  "WithStatus status = (\<lambda>os. os\<lparr>Status := status\<rparr>)"

definition buildOptions :: "Option list \<Rightarrow> options" where
  "buildOptions opts =
     fold (\<lambda>opt options. opt options) opts \<lparr>Headers = None, Status = None, Client = None\<rparr>"

section \<open>client.go\<close>

definition marshal :: "'v env \<Rightarrow> 'v client \<Rightarrow> 'v any \<Rightarrow> (error + bytes) \<times> 'v event list" where
  "marshal env c v =
     (let r = (case MarshalFunc c of Some f \<Rightarrow> f v | None \<Rightarrow> json_Marshal env v)
      in (r, [EvMarshal v r]))"

definition unmarshal ::
  "'v env \<Rightarrow> 'v client \<Rightarrow> bytes \<Rightarrow> addr \<Rightarrow> (addr \<Rightarrow> 'v any)
     \<Rightarrow> error option \<times> (addr \<Rightarrow> 'v any) \<times> 'v event list" where
  "unmarshal env c data v hp =
     (case (case UnmarshalFunc c of Some f \<Rightarrow> f data (hp v) | None \<Rightarrow> json_Unmarshal env data (hp v)) of
        (err, x) \<Rightarrow> (err, hp(v := x), [EvUnmarshal data v err]))"

text \<open>\<^verbatim>\<open>req.Header.Set(key, value)\<close>: one value under the canonical key, replacing any other.\<close>

definition Header_Set :: "'v env \<Rightarrow> string \<Rightarrow> string \<Rightarrow> request \<Rightarrow> request" where
  "Header_Set env key value req =
     req\<lparr>Header := (Header req)(CanonicalMIMEHeaderKey env key \<mapsto> [value])\<rparr>"

text \<open>
  The loop \<^verbatim>\<open>for key, value := range options.Headers { req.Header.Set(key, value) }\<close>
  of \<^verbatim>\<open>buildRequest\<close>; a nil map is not entered.
\<close>

definition applyHeaders :: "'v env \<Rightarrow> (string \<rightharpoonup> string) option \<Rightarrow> request \<Rightarrow> request" where
  "applyHeaders env headers req =
     (case headers of
        None \<Rightarrow> req
      | Some m \<Rightarrow>
          fold (\<lambda>key r. case m key of Some value \<Rightarrow> Header_Set env key value r | None \<Rightarrow> r)
            (range_order env m) req)"

definition buildRequest ::
  "'v env \<Rightarrow> 'v client \<Rightarrow> context \<Rightarrow> string \<Rightarrow> string \<Rightarrow> 'v any \<Rightarrow> options
     \<Rightarrow> (error + request) \<times> 'v event list" where
  "buildRequest env c ctx meth url body options =
     (case (if body \<noteq> AnyNil then marshal env c body else (Inr [], [])) of
        (Inl err, evs) \<Rightarrow> (Inl (Wrap ''failed to marshal request body'' err), evs)
      | (Inr bodyBytes, evs) \<Rightarrow>
          (case NewRequest_error env ctx meth url of
             Some err \<Rightarrow> (Inl (Wrap ''failed to create request'' err), evs)
           | None \<Rightarrow>
               (Inr (applyHeaders env (Headers options)
                       \<lparr>Ctx = ctx, Method = meth, URL = url, Body = bodyBytes,
                        Header = Map.empty\<rparr>), evs)))"

definition getClient :: "'v env \<Rightarrow> 'v client \<Rightarrow> options \<Rightarrow> addr" where
  "getClient env c options =
     (case Client options of
        Some h \<Rightarrow> h
      | None \<Rightarrow> (case HTTPClient c of None \<Rightarrow> http_DefaultClient env | Some h \<Rightarrow> h))"

definition parseResponse ::
  "'v env \<Rightarrow> 'v client \<Rightarrow> response \<Rightarrow> addr option \<Rightarrow> options \<Rightarrow> (addr \<Rightarrow> 'v any)
     \<Rightarrow> 'v outcome" where
  "parseResponse env c resp result options hp =
     (case (case Status options of
              Some p \<Rightarrow> (hp(p := AnyInt (StatusCode resp)), [EvSetStatus p (StatusCode resp)])
            | None \<Rightarrow> (hp, [])) of
        (hp1, evs1) \<Rightarrow>
          if Status options = None \<and> StatusCode resp \<ge> 400
          then \<lparr>ret = Some (Error (''HTTP error: '' @ StatusLine resp)), mem = hp1, calls = evs1\<rparr>
          else
            (case ReadAll resp of
               Inl err \<Rightarrow>
                 \<lparr>ret = Some (Wrap ''failed to read response body'' err), mem = hp1, calls = evs1\<rparr>
             | Inr body \<Rightarrow>
                 (case result of
                    None \<Rightarrow> \<lparr>ret = None, mem = hp1, calls = evs1\<rparr>
                  | Some r \<Rightarrow>
                      (case unmarshal env c body r hp1 of
                         (Some err, hp2, evs2) \<Rightarrow>
                           if Status options \<noteq> None \<and> StatusCode resp \<ge> 400
                           then \<lparr>ret = None, mem = hp2, calls = evs1 @ evs2\<rparr>
                           else \<lparr>ret = Some (Wrap ''failed to unmarshal JSON response'' err),
                                 mem = hp2, calls = evs1 @ evs2\<rparr>
                       | (None, hp2, evs2) \<Rightarrow>
                           \<lparr>ret = None, mem = hp2, calls = evs1 @ evs2\<rparr>))))"

text \<open>
  The four methods of \<^verbatim>\<open>*Client\<close>. Each returns its error (\<open>ret\<close>), the store it leaves
  (\<open>mem\<close>) and the log of what it did (\<open>calls\<close>). The deferred \<^verbatim>\<open>resp.Body.Close()\<close> runs
  after \<^verbatim>\<open>parseResponse\<close>, whatever it returns.
\<close>

definition Client_Get ::
  "'v env \<Rightarrow> 'v client \<Rightarrow> context \<Rightarrow> string \<Rightarrow> addr option \<Rightarrow> Option list
     \<Rightarrow> (addr \<Rightarrow> 'v any) \<Rightarrow> 'v outcome" where
  "Client_Get env c ctx url result opts hp =
     (let options = buildOptions opts in
      case buildRequest env c ctx ''GET'' url AnyNil options of
        (Inl err, evs) \<Rightarrow>
          \<lparr>ret = Some (Wrap ''failed to create GET request'' err), mem = hp, calls = evs\<rparr>
      | (Inr req, evs) \<Rightarrow>
          (let client = getClient env c options in
           case http_Do env client req of
             Inl err \<Rightarrow>
               \<lparr>ret = Some (Wrap ''failed to make GET request'' err), mem = hp,
                calls = evs @ [EvDo client req (Inl err)]\<rparr>
           | Inr resp \<Rightarrow>
               (let out = parseResponse env c resp result options hp in
                out\<lparr>calls := evs @ [EvDo client req (Inr resp)] @ calls out @ [EvClose]\<rparr>)))"

definition Client_Post ::
  "'v env \<Rightarrow> 'v client \<Rightarrow> context \<Rightarrow> string \<Rightarrow> 'v any \<Rightarrow> addr option \<Rightarrow> Option list
     \<Rightarrow> (addr \<Rightarrow> 'v any) \<Rightarrow> 'v outcome" where
  "Client_Post env c ctx url body result opts hp =
     (let options = buildOptions opts in
      case buildRequest env c ctx ''POST'' url body options of
        (Inl err, evs) \<Rightarrow>
          \<lparr>ret = Some (Wrap ''failed to create POST request'' err), mem = hp, calls = evs\<rparr>
      | (Inr req0, evs) \<Rightarrow>
          (let req = Header_Set env ''Content-Type'' ''application/json'' req0;
               client = getClient env c options in
           case http_Do env client req of
             Inl err \<Rightarrow>
               \<lparr>ret = Some (Wrap ''failed to make POST request'' err), mem = hp,
                calls = evs @ [EvDo client req (Inl err)]\<rparr>
           | Inr resp \<Rightarrow>
               (let out = parseResponse env c resp result options hp in
                out\<lparr>calls := evs @ [EvDo client req (Inr resp)] @ calls out @ [EvClose]\<rparr>)))"

definition Client_Patch ::
  "'v env \<Rightarrow> 'v client \<Rightarrow> context \<Rightarrow> string \<Rightarrow> 'v any \<Rightarrow> addr option \<Rightarrow> Option list
     \<Rightarrow> (addr \<Rightarrow> 'v any) \<Rightarrow> 'v outcome" where
  "Client_Patch env c ctx url body result opts hp =
     (let options = buildOptions opts in
      case buildRequest env c ctx ''PATCH'' url body options of
        (Inl err, evs) \<Rightarrow>
          \<lparr>ret = Some (Wrap ''failed to create PATCH request'' err), mem = hp, calls = evs\<rparr>
      | (Inr req0, evs) \<Rightarrow>
          (let req = Header_Set env ''Content-Type'' ''application/json'' req0;
               client = getClient env c options in
           case http_Do env client req of
             Inl err \<Rightarrow>
               \<lparr>ret = Some (Wrap ''failed to make PATCH request'' err), mem = hp,
                calls = evs @ [EvDo client req (Inl err)]\<rparr>
           | Inr resp \<Rightarrow>
               (let out = parseResponse env c resp result options hp in
                out\<lparr>calls := evs @ [EvDo client req (Inr resp)] @ calls out @ [EvClose]\<rparr>)))"

definition Client_Delete ::
  "'v env \<Rightarrow> 'v client \<Rightarrow> context \<Rightarrow> string \<Rightarrow> addr option \<Rightarrow> Option list
     \<Rightarrow> (addr \<Rightarrow> 'v any) \<Rightarrow> 'v outcome" where
  "Client_Delete env c ctx url result opts hp =
     (let options = buildOptions opts in
      case buildRequest env c ctx ''DELETE'' url AnyNil options of
        (Inl err, evs) \<Rightarrow>
          \<lparr>ret = Some (Wrap ''failed to create DELETE request'' err), mem = hp, calls = evs\<rparr>
      | (Inr req, evs) \<Rightarrow>
          (let client = getClient env c options in
           case http_Do env client req of
             Inl err \<Rightarrow>
               \<lparr>ret = Some (Wrap ''failed to make DELETE request'' err), mem = hp,
                calls = evs @ [EvDo client req (Inl err)]\<rparr>
           | Inr resp \<Rightarrow>
               (let out = parseResponse env c resp result options hp in
                out\<lparr>calls := evs @ [EvDo client req (Inr resp)] @ calls out @ [EvClose]\<rparr>)))"

text \<open>
  Modelled from the spec: the method \<^verbatim>\<open>(*Client).Put\<close>. The facade's \<^verbatim>\<open>Put\<close> calls it and the
  README lists it, but \<^verbatim>\<open>client.go\<close> as given holds no such method. The definition follows
  section 4.1 of the specification step by step: fold the options (1); a raw byte
  sequence is the payload as it is, any other body goes through the marshal function,
  whose failure aborts the call as a request-construction error (2); build the request
  with verb PUT and the option headers, no Content-Type forced (3); select the transport
  and dispatch, a transport failure naming the verb (4); close the body on every path
  after dispatch (5); interpret status and decode, which is \<open>parseResponse\<close> (6, 7).
\<close>

definition Client_Put ::
  "'v env \<Rightarrow> 'v client \<Rightarrow> context \<Rightarrow> string \<Rightarrow> 'v any \<Rightarrow> addr option \<Rightarrow> Option list
     \<Rightarrow> (addr \<Rightarrow> 'v any) \<Rightarrow> 'v outcome" where
  "Client_Put env c ctx url body result opts hp =
     (let options = buildOptions opts in
      case (case body of
              AnyNil \<Rightarrow> (Inr [], [])
            | AnyBytes bs \<Rightarrow> (Inr bs, [])
            | _ \<Rightarrow> marshal env c body) of
        (Inl err, evs) \<Rightarrow>
          \<lparr>ret = Some (Wrap ''failed to create PUT request''
                         (Wrap ''failed to marshal request body'' err)),
           mem = hp, calls = evs\<rparr>
      | (Inr payload, evs) \<Rightarrow>
          (case NewRequest_error env ctx ''PUT'' url of
             Some err \<Rightarrow>
               \<lparr>ret = Some (Wrap ''failed to create PUT request''
                              (Wrap ''failed to create request'' err)),
                mem = hp, calls = evs\<rparr>
           | None \<Rightarrow>
               (let req = applyHeaders env (Headers options)
                            \<lparr>Ctx = ctx, Method = ''PUT'', URL = url, Body = payload,
                             Header = Map.empty\<rparr>;
                    client = getClient env c options in
                case http_Do env client req of
                  Inl err \<Rightarrow>
                    \<lparr>ret = Some (Wrap ''failed to make PUT request'' err), mem = hp,
                     calls = evs @ [EvDo client req (Inl err)]\<rparr>
                | Inr resp \<Rightarrow>
                    (let out = parseResponse env c resp result options hp in
                     out\<lparr>calls := evs @ [EvDo client req (Inr resp)] @ calls out @ [EvClose]\<rparr>))))"

section \<open>default\_client.go\<close>

text \<open>
  The package-level functions, in the version of the file that passes a context and has
  \<^verbatim>\<open>Put\<close>: each calls the method of the same name on \<^verbatim>\<open>defaultClient = &Client{}\<close>.
\<close>

definition defaultClient :: "'v client" where
  "defaultClient = \<lparr>HTTPClient = None, MarshalFunc = None, UnmarshalFunc = None\<rparr>"






section \<open>Auxiliary notions for the statements\<close>

text \<open>
  The tail that every method runs once its request is built: select the transport, call
  it, and on a response run \<open>parseResponse\<close> and close the body.
\<close>

definition dispatch ::
  "'v env \<Rightarrow> 'v client \<Rightarrow> string \<Rightarrow> request \<Rightarrow> addr option \<Rightarrow> options \<Rightarrow> 'v event list
     \<Rightarrow> (addr \<Rightarrow> 'v any) \<Rightarrow> 'v outcome" where
  "dispatch env c verb req result options evs hp =
     (let client = getClient env c options in
      case http_Do env client req of
        Inl err \<Rightarrow>
          \<lparr>ret = Some (Wrap (''failed to make '' @ verb @ '' request'') err), mem = hp,
           calls = evs @ [EvDo client req (Inl err)]\<rparr>
      | Inr resp \<Rightarrow>
          (let out = parseResponse env c resp result options hp in
           out\<lparr>calls := evs @ [EvDo client req (Inr resp)] @ calls out @ [EvClose]\<rparr>))"

text \<open>
  Readings of a log: the transport calls (transport, request, answer), the marshal calls
  and the unmarshal calls it holds, in order.
\<close>

fun dispatches :: "'v event list \<Rightarrow> (addr \<times> request \<times> (error + response)) list" where
  "dispatches [] = []"
| "dispatches (EvDo h req x # evs) = (h, req, x) # dispatches evs"
| "dispatches (_ # evs) = dispatches evs"

fun marshalled :: "'v event list \<Rightarrow> ('v any \<times> (error + bytes)) list" where
  "marshalled [] = []"
| "marshalled (EvMarshal v x # evs) = (v, x) # marshalled evs"
| "marshalled (_ # evs) = marshalled evs"

fun unmarshalled :: "'v event list \<Rightarrow> (bytes \<times> addr \<times> error option) list" where
  "unmarshalled [] = []"
| "unmarshalled (EvUnmarshal data p x # evs) = (data, p, x) # unmarshalled evs"
| "unmarshalled (_ # evs) = unmarshalled evs"

text \<open>
  The outcomes of the four methods of \<^verbatim>\<open>client.go\<close> on the same arguments (the body is
  used by POST and PATCH only).
\<close>

definition client_calls ::
  "'v env \<Rightarrow> 'v client \<Rightarrow> context \<Rightarrow> string \<Rightarrow> 'v any \<Rightarrow> addr option \<Rightarrow> Option list
     \<Rightarrow> (addr \<Rightarrow> 'v any) \<Rightarrow> 'v outcome set" where
  "client_calls env c ctx url body result opts hp =
     {Client_Get env c ctx url result opts hp,
      Client_Post env c ctx url body result opts hp,
      Client_Patch env c ctx url body result opts hp,
      Client_Delete env c ctx url result opts hp}"

text \<open>
  The header names that a header map of the options holds, in the canonical form under
  which \<^verbatim>\<open>Header.Set\<close> stores them.
\<close>

definition header_keys :: "'v env \<Rightarrow> (string \<rightharpoonup> string) option \<Rightarrow> string set" where
  "header_keys env headers =
     (case headers of
        None \<Rightarrow> {}
      | Some m \<Rightarrow> CanonicalMIMEHeaderKey env ` dom m)"

text \<open>
  Test doubles, in the manner of a Go test with a fake transport: every request is
  accepted and answered with the given response, no response body decodes, keys are
  already canonical, and a map is ranged over in the given order of keys.
\<close>

definition fake_env :: "string list \<Rightarrow> response \<Rightarrow> unit env" where
  "fake_env ks resp =
     \<lparr>json_Marshal = (\<lambda>v. Inr []),
      json_Unmarshal = (\<lambda>data x. (Some (Error ''invalid character''), x)),
      CanonicalMIMEHeaderKey = (\<lambda>key. key),
      range_order = (\<lambda>m. ks),
      NewRequest_error = (\<lambda>ctx meth url. None),
      http_DefaultClient = 0,
      http_Do = (\<lambda>h req. Inr resp)\<rparr>"

definition not_found :: response where
  "not_found = \<lparr>StatusCode = 404, StatusLine = ''404 Not Found'', ReadAll = Inr []\<rparr>"

definition request_of :: "string \<Rightarrow> string \<Rightarrow> bytes \<Rightarrow> header \<Rightarrow> request" where
  "request_of verb url payload hs =
     \<lparr>Ctx = Context 0, Method = verb, URL = url, Body = payload, Header = hs\<rparr>"

definition failing_marshal :: "unit client" where
  "failing_marshal =
     \<lparr>HTTPClient = None, MarshalFunc = Some (\<lambda>v. Inl (Error ''json: unsupported type'')),
      UnmarshalFunc = None\<rparr>"

definition constant_marshal :: "bytes \<Rightarrow> unit client" where
  "constant_marshal bs =
     \<lparr>HTTPClient = None, MarshalFunc = Some (\<lambda>v. Inr bs), UnmarshalFunc = None\<rparr>"

section \<open>Lemmas\<close>

subsection \<open>The log of each function\<close>

lemma buildRequest_events:
  "snd (buildRequest env c ctx meth url body options) =
     (if body = AnyNil then [] else [EvMarshal body (fst (marshal env c body))])"
  by (simp add: buildRequest_def marshal_def Let_def split: sum.splits option.splits)

lemma buildRequest_Inr:
  "buildRequest env c ctx meth url body options = (Inr req, evs) \<Longrightarrow>
     \<exists>bodyBytes.
       (if body = AnyNil then bodyBytes = [] else fst (marshal env c body) = Inr bodyBytes) \<and>
       req = applyHeaders env (Headers options)
               \<lparr>Ctx = ctx, Method = meth, URL = url, Body = bodyBytes, Header = Map.empty\<rparr>"
  by (auto simp: buildRequest_def marshal_def Let_def split: sum.splits option.splits if_splits)

lemma unmarshal_events:
  "unmarshal env c data v hp = (e, hp', evs) \<Longrightarrow> evs = [EvUnmarshal data v e]"
  by (auto simp: unmarshal_def split: option.splits prod.splits)

lemma parseResponse_dispatches [simp]:
  "dispatches (calls (parseResponse env c resp result options hp)) = []"
  by (auto simp: parseResponse_def split: option.splits sum.splits prod.splits
      dest!: unmarshal_events)

lemma parseResponse_marshalled [simp]:
  "marshalled (calls (parseResponse env c resp result options hp)) = []"
  by (auto simp: parseResponse_def split: option.splits sum.splits prod.splits
      dest!: unmarshal_events)

lemma dispatches_append [simp]: "dispatches (xs @ ys) = dispatches xs @ dispatches ys"
  by (induction xs rule: dispatches.induct) simp_all

lemma marshalled_append [simp]: "marshalled (xs @ ys) = marshalled xs @ marshalled ys"
  by (induction xs rule: marshalled.induct) simp_all

lemma unmarshalled_append [simp]: "unmarshalled (xs @ ys) = unmarshalled xs @ unmarshalled ys"
  by (induction xs rule: unmarshalled.induct) simp_all

lemma dispatch_calls:
  "calls (dispatch env c verb req result options evs hp) =
     evs @ [EvDo (getClient env c options) req (http_Do env (getClient env c options) req)] @
     (case http_Do env (getClient env c options) req of
        Inl err \<Rightarrow> []
      | Inr resp \<Rightarrow> calls (parseResponse env c resp result options hp) @ [EvClose])"
  by (simp add: dispatch_def Let_def split: sum.splits)

lemma dispatch_ret:
  "ret (dispatch env c verb req result options evs hp) =
     (case http_Do env (getClient env c options) req of
        Inl err \<Rightarrow> Some (Wrap (''failed to make '' @ verb @ '' request'') err)
      | Inr resp \<Rightarrow> ret (parseResponse env c resp result options hp))"
  by (simp add: dispatch_def Let_def split: sum.splits)

lemma dispatch_mem:
  "mem (dispatch env c verb req result options evs hp) =
     (case http_Do env (getClient env c options) req of
        Inl err \<Rightarrow> hp
      | Inr resp \<Rightarrow> mem (parseResponse env c resp result options hp))"
  by (simp add: dispatch_def Let_def split: sum.splits)

lemma Client_Get_dispatch:
  "Client_Get env c ctx url result opts hp =
     (case buildRequest env c ctx ''GET'' url AnyNil (buildOptions opts) of
        (Inl err, evs) \<Rightarrow>
          \<lparr>ret = Some (Wrap ''failed to create GET request'' err), mem = hp, calls = evs\<rparr>
      | (Inr req, evs) \<Rightarrow> dispatch env c ''GET'' req result (buildOptions opts) evs hp)"
  by (simp add: Client_Get_def dispatch_def Let_def split: prod.splits sum.splits)

lemma Client_Delete_dispatch:
  "Client_Delete env c ctx url result opts hp =
     (case buildRequest env c ctx ''DELETE'' url AnyNil (buildOptions opts) of
        (Inl err, evs) \<Rightarrow>
          \<lparr>ret = Some (Wrap ''failed to create DELETE request'' err), mem = hp, calls = evs\<rparr>
      | (Inr req, evs) \<Rightarrow> dispatch env c ''DELETE'' req result (buildOptions opts) evs hp)"
  by (simp add: Client_Delete_def dispatch_def Let_def split: prod.splits sum.splits)

lemma Client_Post_dispatch:
  "Client_Post env c ctx url body result opts hp =
     (case buildRequest env c ctx ''POST'' url body (buildOptions opts) of
        (Inl err, evs) \<Rightarrow>
          \<lparr>ret = Some (Wrap ''failed to create POST request'' err), mem = hp, calls = evs\<rparr>
      | (Inr req, evs) \<Rightarrow>
          dispatch env c ''POST'' (Header_Set env ''Content-Type'' ''application/json'' req)
            result (buildOptions opts) evs hp)"
  by (simp add: Client_Post_def dispatch_def Let_def split: prod.splits sum.splits)

lemma Client_Patch_dispatch:
  "Client_Patch env c ctx url body result opts hp =
     (case buildRequest env c ctx ''PATCH'' url body (buildOptions opts) of
        (Inl err, evs) \<Rightarrow>
          \<lparr>ret = Some (Wrap ''failed to create PATCH request'' err), mem = hp, calls = evs\<rparr>
      | (Inr req, evs) \<Rightarrow>
          dispatch env c ''PATCH'' (Header_Set env ''Content-Type'' ''application/json'' req)
            result (buildOptions opts) evs hp)"
  by (simp add: Client_Patch_def dispatch_def Let_def split: prod.splits sum.splits)


subsection \<open>From a method to parseResponse\<close>

lemma buildRequest_log:
  "buildRequest env c ctx meth url body options = (r, evs) \<Longrightarrow>
     dispatches evs = [] \<and> unmarshalled evs = [] \<and> (\<forall>p n. EvSetStatus p n \<notin> set evs)
     \<and> evs = (if body = AnyNil then [] else [EvMarshal body (fst (marshal env c body))])"
  using buildRequest_events [of env c ctx meth url body options] by auto

lemma dispatch_any:
  assumes "(h, req', x) \<in> set (dispatches (calls (dispatch env c verb req result options evs hp)))"
    and "dispatches evs = []"
  shows "h = getClient env c options \<and> req' = req \<and> x = http_Do env h req"
  using assms by (auto simp: dispatch_def Let_def split: sum.splits)

lemma method_shape:
  assumes out: "out = (case br of
                   (Inl err, evs) \<Rightarrow> \<lparr>ret = Some (Wrap msg err), mem = hp, calls = evs\<rparr>
                 | (Inr rq, evs) \<Rightarrow> dispatch env c verb (f rq) result options evs hp)"
    and log: "dispatches (snd br) = []"
    and d: "(h, req, x) \<in> set (dispatches (calls out))"
  shows "\<exists>rq. fst br = Inr rq \<and> req = f rq \<and> h = getClient env c options \<and>
           x = http_Do env h req \<and> out = dispatch env c verb req result options (snd br) hp"
proof (cases br)
  case (Pair r evs)
  show ?thesis
  proof (cases r)
    case (Inl err)
    with out log d Pair show ?thesis by simp
  next
    case (Inr rq)
    with out Pair have eq: "out = dispatch env c verb (f rq) result options evs hp" by simp
    from dispatch_any [OF d [unfolded eq]] log Pair Inr eq show ?thesis by simp
  qed
qed

lemma Client_Get_shape:
  assumes "(h, req, x) \<in> set (dispatches (calls (Client_Get env c ctx url result opts hp)))"
  shows "\<exists>rq evs. buildRequest env c ctx ''GET'' url AnyNil (buildOptions opts) = (Inr rq, evs) \<and>
           req = rq \<and>
           h = getClient env c (buildOptions opts) \<and> x = http_Do env h req \<and>
           Client_Get env c ctx url result opts hp =
             dispatch env c ''GET'' req result (buildOptions opts) evs hp"
proof -
  let ?br = "buildRequest env c ctx ''GET'' url AnyNil (buildOptions opts)"
  have log: "dispatches (snd ?br) = []"
    using buildRequest_log [of env c ctx "''GET''" url AnyNil "buildOptions opts" "fst ?br" "snd ?br"]
    by simp
  have shape: "Client_Get env c ctx url result opts hp = (case ?br of
                   (Inl err, evs) \<Rightarrow>
                     \<lparr>ret = Some (Wrap ''failed to create GET request'' err), mem = hp, calls = evs\<rparr>
                 | (Inr rq, evs) \<Rightarrow> dispatch env c ''GET'' rq result (buildOptions opts) evs hp)"
    by (simp add: Client_Get_dispatch)
  from method_shape [OF shape log assms] show ?thesis
    by (cases ?br) auto
qed

lemma Client_Post_shape:
  assumes "(h, req, x) \<in> set (dispatches (calls (Client_Post env c ctx url body result opts hp)))"
  shows "\<exists>rq evs. buildRequest env c ctx ''POST'' url body (buildOptions opts) = (Inr rq, evs) \<and>
           req = Header_Set env ''Content-Type'' ''application/json'' rq \<and>
           h = getClient env c (buildOptions opts) \<and> x = http_Do env h req \<and>
           Client_Post env c ctx url body result opts hp =
             dispatch env c ''POST'' req result (buildOptions opts) evs hp"
proof -
  let ?br = "buildRequest env c ctx ''POST'' url body (buildOptions opts)"
  have log: "dispatches (snd ?br) = []"
    using buildRequest_log [of env c ctx "''POST''" url body "buildOptions opts" "fst ?br" "snd ?br"]
    by simp
  have shape: "Client_Post env c ctx url body result opts hp = (case ?br of
                   (Inl err, evs) \<Rightarrow>
                     \<lparr>ret = Some (Wrap ''failed to create POST request'' err), mem = hp, calls = evs\<rparr>
                 | (Inr rq, evs) \<Rightarrow> dispatch env c ''POST'' (Header_Set env ''Content-Type'' ''application/json'' rq) result (buildOptions opts) evs hp)"
    by (simp add: Client_Post_dispatch)
  from method_shape [OF shape log assms] show ?thesis
    by (cases ?br) auto
qed

lemma Client_Patch_shape:
  assumes "(h, req, x) \<in> set (dispatches (calls (Client_Patch env c ctx url body result opts hp)))"
  shows "\<exists>rq evs. buildRequest env c ctx ''PATCH'' url body (buildOptions opts) = (Inr rq, evs) \<and>
           req = Header_Set env ''Content-Type'' ''application/json'' rq \<and>
           h = getClient env c (buildOptions opts) \<and> x = http_Do env h req \<and>
           Client_Patch env c ctx url body result opts hp =
             dispatch env c ''PATCH'' req result (buildOptions opts) evs hp"
proof -
  let ?br = "buildRequest env c ctx ''PATCH'' url body (buildOptions opts)"
  have log: "dispatches (snd ?br) = []"
    using buildRequest_log [of env c ctx "''PATCH''" url body "buildOptions opts" "fst ?br" "snd ?br"]
    by simp
  have shape: "Client_Patch env c ctx url body result opts hp = (case ?br of
                   (Inl err, evs) \<Rightarrow>
                     \<lparr>ret = Some (Wrap ''failed to create PATCH request'' err), mem = hp, calls = evs\<rparr>
                 | (Inr rq, evs) \<Rightarrow> dispatch env c ''PATCH'' (Header_Set env ''Content-Type'' ''application/json'' rq) result (buildOptions opts) evs hp)"
    by (simp add: Client_Patch_dispatch)
  from method_shape [OF shape log assms] show ?thesis
    by (cases ?br) auto
qed

lemma Client_Delete_shape:
  assumes "(h, req, x) \<in> set (dispatches (calls (Client_Delete env c ctx url result opts hp)))"
  shows "\<exists>rq evs. buildRequest env c ctx ''DELETE'' url AnyNil (buildOptions opts) = (Inr rq, evs) \<and>
           req = rq \<and>
           h = getClient env c (buildOptions opts) \<and> x = http_Do env h req \<and>
           Client_Delete env c ctx url result opts hp =
             dispatch env c ''DELETE'' req result (buildOptions opts) evs hp"
proof -
  let ?br = "buildRequest env c ctx ''DELETE'' url AnyNil (buildOptions opts)"
  have log: "dispatches (snd ?br) = []"
    using buildRequest_log [of env c ctx "''DELETE''" url AnyNil "buildOptions opts" "fst ?br" "snd ?br"]
    by simp
  have shape: "Client_Delete env c ctx url result opts hp = (case ?br of
                   (Inl err, evs) \<Rightarrow>
                     \<lparr>ret = Some (Wrap ''failed to create DELETE request'' err), mem = hp, calls = evs\<rparr>
                 | (Inr rq, evs) \<Rightarrow> dispatch env c ''DELETE'' rq result (buildOptions opts) evs hp)"
    by (simp add: Client_Delete_dispatch)
  from method_shape [OF shape log assms] show ?thesis
    by (cases ?br) auto
qed

lemma client_calls_shape:
  assumes "out \<in> client_calls env c ctx url body result opts hp"
    and "(h, req, x) \<in> set (dispatches (calls out))"
  shows "\<exists>verb pre. dispatches pre = [] \<and> unmarshalled pre = [] \<and>
           (\<forall>p n. EvSetStatus p n \<notin> set pre) \<and>
           h = getClient env c (buildOptions opts) \<and> x = http_Do env h req \<and>
           out = dispatch env c verb req result (buildOptions opts) pre hp"
proof -
  from assms(1) consider
      "out = Client_Get env c ctx url result opts hp"
    | "out = Client_Post env c ctx url body result opts hp"
    | "out = Client_Patch env c ctx url body result opts hp"
    | "out = Client_Delete env c ctx url result opts hp"
    by (auto simp: client_calls_def)
  then show ?thesis
  proof cases
    case 1
    from Client_Get_shape [OF assms(2) [unfolded 1]] 1 show ?thesis
      by (metis buildRequest_log)
  next
    case 2
    from Client_Post_shape [OF assms(2) [unfolded 2]] 2 show ?thesis
      by (metis buildRequest_log)
  next
    case 3
    from Client_Patch_shape [OF assms(2) [unfolded 3]] 3 show ?thesis
      by (metis buildRequest_log)
  next
    case 4
    from Client_Delete_shape [OF assms(2) [unfolded 4]] 4 show ?thesis
      by (metis buildRequest_log)
  qed
qed

subsection \<open>parseResponse\<close>

lemma parseResponse_http_error:
  "Status options = None \<Longrightarrow> 400 \<le> StatusCode resp \<Longrightarrow>
   parseResponse env c resp result options hp =
     \<lparr>ret = Some (Error (''HTTP error: '' @ StatusLine resp)), mem = hp, calls = []\<rparr>"
  by (simp add: parseResponse_def)


lemma parseResponse_status_event:
  "Status options = Some p \<Longrightarrow>
   \<exists>rest. calls (parseResponse env c resp result options hp) = EvSetStatus p (StatusCode resp) # rest
          \<and> (\<forall>q n. EvSetStatus q n \<notin> set rest)"
  by (auto simp: parseResponse_def split: option.splits sum.splits prod.splits
      dest!: unmarshal_events)

lemma parseResponse_status_mem:
  "Status options = Some p \<Longrightarrow> result \<noteq> Some p \<Longrightarrow>
   mem (parseResponse env c resp result options hp) p = AnyInt (StatusCode resp)"
  by (auto simp: parseResponse_def unmarshal_def split: option.splits sum.splits prod.splits)

lemma client_calls_answered:
  assumes "out \<in> client_calls env c ctx url body result opts hp"
    and "(h, req, Inr resp) \<in> set (dispatches (calls out))"
  shows "\<exists>pre. dispatches pre = [] \<and> unmarshalled pre = [] \<and>
           (\<forall>p n. EvSetStatus p n \<notin> set pre) \<and>
           calls out = pre @ [EvDo h req (Inr resp)] @
             calls (parseResponse env c resp result (buildOptions opts) hp) @ [EvClose] \<and>
           ret out = ret (parseResponse env c resp result (buildOptions opts) hp) \<and>
           mem out = mem (parseResponse env c resp result (buildOptions opts) hp)"
proof -
  from client_calls_shape [OF assms] obtain verb pre where
    pre: "dispatches pre = []" "unmarshalled pre = []" "\<forall>p n. EvSetStatus p n \<notin> set pre"
    and h: "h = getClient env c (buildOptions opts)" and x: "Inr resp = http_Do env h req"
    and out: "out = dispatch env c verb req result (buildOptions opts) pre hp"
    by blast
  from x [symmetric] h have "http_Do env (getClient env c (buildOptions opts)) req = Inr resp"
    by simp
  then have "calls out = pre @ [EvDo h req (Inr resp)] @
             calls (parseResponse env c resp result (buildOptions opts) hp) @ [EvClose]"
    and "ret out = ret (parseResponse env c resp result (buildOptions opts) hp)"
    and "mem out = mem (parseResponse env c resp result (buildOptions opts) hp)"
    unfolding out using h by (simp_all add: dispatch_calls dispatch_ret dispatch_mem)
  with pre show ?thesis by blast
qed

subsection \<open>Requests\<close>

lemma fold_headers_other:
  "\<forall>key. m key \<noteq> None \<longrightarrow> CanonicalMIMEHeaderKey env key \<noteq> k \<Longrightarrow>
   Header (fold (\<lambda>key r. case m key of Some value \<Rightarrow> Header_Set env key value r | None \<Rightarrow> r) ks r) k
     = Header r k"
  by (induction ks arbitrary: r) (auto simp: Header_Set_def split: option.splits)

lemma applyHeaders_other:
  "k \<notin> header_keys env hs \<Longrightarrow> Header (applyHeaders env hs r) k = Header r k"
proof (cases hs)
  case None
  then show ?thesis by (simp add: applyHeaders_def)
next
  case (Some m)
  assume "k \<notin> header_keys env hs"
  with Some have "\<forall>key. m key \<noteq> None \<longrightarrow> CanonicalMIMEHeaderKey env key \<noteq> k"
    by (auto simp: header_keys_def)
  from fold_headers_other [OF this] Some show ?thesis by (simp add: applyHeaders_def)
qed

lemma fold_headers_fields:
  "Ctx (fold (\<lambda>key r. case m key of Some value \<Rightarrow> Header_Set env key value r | None \<Rightarrow> r) ks r) = Ctx r \<and>
   Method (fold (\<lambda>key r. case m key of Some value \<Rightarrow> Header_Set env key value r | None \<Rightarrow> r) ks r) = Method r \<and>
   URL (fold (\<lambda>key r. case m key of Some value \<Rightarrow> Header_Set env key value r | None \<Rightarrow> r) ks r) = URL r \<and>
   Body (fold (\<lambda>key r. case m key of Some value \<Rightarrow> Header_Set env key value r | None \<Rightarrow> r) ks r) = Body r"
  by (induction ks arbitrary: r) (auto simp: Header_Set_def split: option.splits)

lemma applyHeaders_fields [simp]:
  "Ctx (applyHeaders env hs r) = Ctx r" "Method (applyHeaders env hs r) = Method r"
  "URL (applyHeaders env hs r) = URL r" "Body (applyHeaders env hs r) = Body r"
  using fold_headers_fields by (auto simp: applyHeaders_def split: option.splits)

lemma Client_Put_shape:
  assumes "(h, req, x) \<in> set (dispatches (calls (Client_Put env c ctx url body result opts hp)))"
  shows "\<exists>payload evs.
           (case body of AnyNil \<Rightarrow> (Inr [], []) | AnyBytes bs \<Rightarrow> (Inr bs, []) | _ \<Rightarrow> marshal env c body)
             = (Inr payload, evs) \<and>
           NewRequest_error env ctx ''PUT'' url = None \<and>
           req = applyHeaders env (Headers (buildOptions opts))
                   \<lparr>Ctx = ctx, Method = ''PUT'', URL = url, Body = payload, Header = Map.empty\<rparr> \<and>
           h = getClient env c (buildOptions opts) \<and> x = http_Do env h req \<and>
           Client_Put env c ctx url body result opts hp =
             dispatch env c ''PUT'' req result (buildOptions opts) evs hp"
proof -
  let ?pl = "case body of AnyNil \<Rightarrow> (Inr [], []) | AnyBytes bs \<Rightarrow> (Inr bs, [])
             | _ \<Rightarrow> marshal env c body"
  let ?br = "case ?pl of
               (Inl err, evs) \<Rightarrow> (Inl (Wrap ''failed to marshal request body'' err), evs)
             | (Inr payload, evs) \<Rightarrow>
                 (case NewRequest_error env ctx ''PUT'' url of
                    Some err \<Rightarrow> (Inl (Wrap ''failed to create request'' err), evs)
                  | None \<Rightarrow> (Inr (applyHeaders env (Headers (buildOptions opts))
                       \<lparr>Ctx = ctx, Method = ''PUT'', URL = url, Body = payload,
                        Header = Map.empty\<rparr>), evs))"
  have log: "dispatches (snd ?br) = []"
    by (auto simp: marshal_def Let_def split: any.splits prod.splits sum.splits option.splits)
  have shape: "Client_Put env c ctx url body result opts hp = (case ?br of
                   (Inl err, evs) \<Rightarrow>
                     \<lparr>ret = Some (Wrap ''failed to create PUT request'' err), mem = hp, calls = evs\<rparr>
                 | (Inr rq, evs) \<Rightarrow> dispatch env c ''PUT'' rq result (buildOptions opts) evs hp)"
    by (simp add: Client_Put_def dispatch_def Let_def split: prod.splits sum.splits option.splits)
  from method_shape [OF shape log assms] obtain rq where
    rq: "fst ?br = Inr rq" "req = rq" "h = getClient env c (buildOptions opts)"
      "x = http_Do env h req"
      "Client_Put env c ctx url body result opts hp =
         dispatch env c ''PUT'' req result (buildOptions opts) (snd ?br) hp"
    by auto
  from rq(1) obtain payload evs where pl: "?pl = (Inr payload, evs)"
    by (cases ?pl; cases "fst ?pl") (auto split: option.splits)
  with rq show ?thesis
    by (auto split: option.splits)
qed

lemma Client_Get_request:
  assumes "(h, req, x) \<in> set (dispatches (calls (Client_Get env c ctx url result opts hp)))"
  shows "req = applyHeaders env (Headers (buildOptions opts))
                 \<lparr>Ctx = ctx, Method = ''GET'', URL = url, Body = [], Header = Map.empty\<rparr>"
  using Client_Get_shape [OF assms] by (auto dest!: buildRequest_Inr)

lemma Client_Delete_request:
  assumes "(h, req, x) \<in> set (dispatches (calls (Client_Delete env c ctx url result opts hp)))"
  shows "req = applyHeaders env (Headers (buildOptions opts))
                 \<lparr>Ctx = ctx, Method = ''DELETE'', URL = url, Body = [], Header = Map.empty\<rparr>"
  using Client_Delete_shape [OF assms] by (auto dest!: buildRequest_Inr)

lemma Client_Post_request:
  assumes "(h, req, x) \<in> set (dispatches (calls (Client_Post env c ctx url body result opts hp)))"
  shows "\<exists>bodyBytes.
           (if body = AnyNil then bodyBytes = [] else fst (marshal env c body) = Inr bodyBytes) \<and>
           req = Header_Set env ''Content-Type'' ''application/json''
                   (applyHeaders env (Headers (buildOptions opts))
                      \<lparr>Ctx = ctx, Method = ''POST'', URL = url, Body = bodyBytes,
                       Header = Map.empty\<rparr>)"
  using Client_Post_shape [OF assms] by (auto dest!: buildRequest_Inr)

lemma Client_Patch_request:
  assumes "(h, req, x) \<in> set (dispatches (calls (Client_Patch env c ctx url body result opts hp)))"
  shows "\<exists>bodyBytes.
           (if body = AnyNil then bodyBytes = [] else fst (marshal env c body) = Inr bodyBytes) \<and>
           req = Header_Set env ''Content-Type'' ''application/json''
                   (applyHeaders env (Headers (buildOptions opts))
                      \<lparr>Ctx = ctx, Method = ''PATCH'', URL = url, Body = bodyBytes,
                       Header = Map.empty\<rparr>)"
  using Client_Patch_shape [OF assms] by (auto dest!: buildRequest_Inr)

subsection \<open>Options\<close>

lemma buildOptions_snoc: "buildOptions (opts @ [opt]) = opt (buildOptions opts)"
  by (simp add: buildOptions_def)

lemma Header_Set_twice:
  "Header_Set env k v (Header_Set env k v r) = Header_Set env k v r"
  by (simp add: Header_Set_def)

lemma fold_single_idem:
  "set ks \<subseteq> {k} \<Longrightarrow>
   fold (\<lambda>key r. case [k \<mapsto> v] key of Some value \<Rightarrow> Header_Set env key value r | None \<Rightarrow> r) ks
     (Header_Set env k v r) = Header_Set env k v r"
  by (induction ks) (simp_all add: Header_Set_twice)

lemma applyHeaders_single:
  assumes "set (range_order env [k \<mapsto> v]) = {k}"
  shows "applyHeaders env (Some [k \<mapsto> v]) r = Header_Set env k v r"
proof (cases "range_order env [k \<mapsto> v]")
  case Nil
  with assms show ?thesis by simp
next
  case (Cons a ks)
  with assms have "a = k" "set ks \<subseteq> {k}" by auto
  with Cons fold_single_idem [where ks = ks and k = k and v = v and env = env and r = r] show ?thesis
    by (simp add: applyHeaders_def)
qed

lemma Headers_WithHeader_twice:
  "Headers (buildOptions [WithHeader key v1, WithHeader key v2]) = Some [key \<mapsto> v2]"
  by (simp add: buildOptions_def WithHeader_def)


text \<open>Unfolding everything that a call on the test doubles runs through.\<close>

lemmas fake_defs = fake_env_def not_found_def request_of_def defaultClient_def
  failing_marshal_def constant_marshal_def Client_Get_def Client_Post_def Client_Patch_def Client_Delete_def
  Client_Put_def buildOptions_def buildRequest_def applyHeaders_def Header_Set_def
  getClient_def marshal_def parseResponse_def unmarshal_def Let_def
  WithStatus_def WithHeader_def WithHeaders_def

section \<open>Response handling\<close>

text \<open>
  In the statements below, \<open>out\<close> is the outcome of any of the four methods, and
  \<open>(h, req, Inr resp) \<in> set (dispatches (calls out))\<close> says that the call handed \<open>req\<close>
  to the transport \<open>h\<close>, which answered with the response \<open>resp\<close>.
\<close>



text \<open>
  Claim C4. Whenever a call got a response with status code at least 400 and no status
  sink was supplied, it returns the error "HTTP error: " followed by the status line,
  the unmarshal function is not invoked, and the store (hence the result sink) is as
  it was before the call.
\<close>

theorem http_status_error_without_sink:
  assumes "out \<in> client_calls env c ctx url body result opts hp"
    and "(h, req, Inr resp) \<in> set (dispatches (calls out))"
    and "Status (buildOptions opts) = None"
    and "400 \<le> StatusCode resp"
  shows "ret out = Some (Error (''HTTP error: '' @ StatusLine resp)) \<and>
         unmarshalled (calls out) = [] \<and> mem out = hp"
proof -
  from client_calls_answered [OF assms(1,2)] obtain pre where
    "unmarshalled pre = []"
    "calls out = pre @ [EvDo h req (Inr resp)] @
       calls (parseResponse env c resp result (buildOptions opts) hp) @ [EvClose]"
    "ret out = ret (parseResponse env c resp result (buildOptions opts) hp)"
    "mem out = mem (parseResponse env c resp result (buildOptions opts) hp)"
    by blast
  then show ?thesis
    by (simp add: parseResponse_http_error [OF assms(3,4)])
qed

theorem http_status_error_without_sink_witness:
  "(0, request_of ''GET'' ''https://example/missing'' [] Map.empty, Inr not_found) \<in>
     set (dispatches (calls (Client_Get (fake_env [] not_found) defaultClient (Context 0)
            ''https://example/missing'' (Some 1) [] (\<lambda>a. AnyNil)))) \<and>
   ret (Client_Get (fake_env [] not_found) defaultClient (Context 0)
          ''https://example/missing'' (Some 1) [] (\<lambda>a. AnyNil)) =
     Some (Error ''HTTP error: 404 Not Found'') \<and>
   mem (Client_Get (fake_env [] not_found) defaultClient (Context 0)
          ''https://example/missing'' (Some 1) [] (\<lambda>a. AnyNil)) 1 = AnyNil"
proof -
  let ?out = "Client_Get (fake_env [] not_found) defaultClient (Context 0)
                ''https://example/missing'' (Some 1) [] (\<lambda>a. AnyNil)"
  have 1: "?out \<in> client_calls (fake_env [] not_found) defaultClient (Context 0)
             ''https://example/missing'' AnyNil (Some 1) [] (\<lambda>a. AnyNil)"
    by (simp add: client_calls_def)
  have 2: "(0, request_of ''GET'' ''https://example/missing'' [] Map.empty, Inr not_found) \<in>
             set (dispatches (calls ?out))"
    by (simp add: fake_defs)
  have 3: "Status (buildOptions []) = None"
    by (simp add: buildOptions_def)
  have 4: "400 \<le> StatusCode not_found"
    by (simp add: not_found_def)
  from http_status_error_without_sink [OF 1 2 3 4] 2 show ?thesis
    by (simp add: not_found_def)
qed

text \<open>
  Claim C5. Whenever a call got a response and a status sink \<open>p\<close> was supplied, the
  status code of the response is written to \<open>p\<close>, for every status code and whatever
  decoding does afterwards, and nothing else is written as a status. When the call
  returns the sink still holds the code, unless the caller passed the very same cell as
  the result sink, which the unmarshal function then overwrites.
\<close>

theorem status_sink_receives_code:
  assumes "out \<in> client_calls env c ctx url body result opts hp"
    and "(h, req, Inr resp) \<in> set (dispatches (calls out))"
    and "Status (buildOptions opts) = Some p"
  shows "EvSetStatus p (StatusCode resp) \<in> set (calls out) \<and>
         (\<forall>q n. EvSetStatus q n \<in> set (calls out) \<longrightarrow> q = p \<and> n = StatusCode resp) \<and>
         (result \<noteq> Some p \<longrightarrow> mem out p = AnyInt (StatusCode resp))"
proof -
  from client_calls_answered [OF assms(1,2)] obtain pre where
    pre: "\<forall>p n. EvSetStatus p n \<notin> set pre"
    and c: "calls out = pre @ [EvDo h req (Inr resp)] @
       calls (parseResponse env c resp result (buildOptions opts) hp) @ [EvClose]"
    and m: "mem out = mem (parseResponse env c resp result (buildOptions opts) hp)"
    by blast
  from parseResponse_status_event [OF assms(3)] obtain rest where
    rest: "calls (parseResponse env c resp result (buildOptions opts) hp) =
             EvSetStatus p (StatusCode resp) # rest"
      "\<forall>q n. EvSetStatus q n \<notin> set rest"
    by blast
  from pre c rest have
    "EvSetStatus p (StatusCode resp) \<in> set (calls out)"
    "\<forall>q n. EvSetStatus q n \<in> set (calls out) \<longrightarrow> q = p \<and> n = StatusCode resp"
    by auto
  moreover have "result \<noteq> Some p \<longrightarrow> mem out p = AnyInt (StatusCode resp)"
    using parseResponse_status_mem [OF assms(3), of result env c resp hp] m by simp
  ultimately show ?thesis by blast
qed

theorem status_sink_receives_code_witness:
  "EvSetStatus 2 404 \<in>
     set (calls (Client_Get (fake_env [] not_found) defaultClient (Context 0)
            ''https://example/missing'' (Some 1) [WithStatus (Some 2)] (\<lambda>a. AnyNil))) \<and>
   mem (Client_Get (fake_env [] not_found) defaultClient (Context 0)
          ''https://example/missing'' (Some 1) [WithStatus (Some 2)] (\<lambda>a. AnyNil)) 2 = AnyInt 404"
proof -
  let ?out = "Client_Get (fake_env [] not_found) defaultClient (Context 0)
                ''https://example/missing'' (Some 1) [WithStatus (Some 2)] (\<lambda>a. AnyNil)"
  have 1: "?out \<in> client_calls (fake_env [] not_found) defaultClient (Context 0)
             ''https://example/missing'' AnyNil (Some 1) [WithStatus (Some 2)] (\<lambda>a. AnyNil)"
    by (simp add: client_calls_def)
  have 2: "(0, request_of ''GET'' ''https://example/missing'' [] Map.empty, Inr not_found) \<in>
             set (dispatches (calls ?out))"
    by (simp add: fake_defs)
  have 3: "Status (buildOptions [WithStatus (Some 2)]) = Some 2"
    by (simp add: buildOptions_def WithStatus_def)
  from status_sink_receives_code [OF 1 2 3] show ?thesis
    by (simp add: not_found_def)
qed

section \<open>Transport selection\<close>

text \<open>
  Claim C9. The transport on which a call dispatches its request is the per-call
  \<open>Client\<close> of the options if there is one, otherwise the \<open>Client\<close> field of the client
  if set, otherwise \<^verbatim>\<open>http.DefaultClient\<close>.
\<close>

theorem transport_precedence:
  assumes "out \<in> client_calls env c ctx url body result opts hp"
    and "(h, req, x) \<in> set (dispatches (calls out))"
  shows "(\<forall>t. Client (buildOptions opts) = Some t \<longrightarrow> h = t) \<and>
         (\<forall>t. Client (buildOptions opts) = None \<and> HTTPClient c = Some t \<longrightarrow> h = t) \<and>
         (Client (buildOptions opts) = None \<and> HTTPClient c = None \<longrightarrow> h = http_DefaultClient env)"
proof -
  from client_calls_shape [OF assms] have "h = getClient env c (buildOptions opts)" by blast
  then show ?thesis by (simp add: getClient_def)
qed

theorem transport_precedence_witness:
  "(7, request_of ''GET'' ''https://example/'' [] Map.empty, Inr not_found) \<in>
     set (dispatches (calls (Client_Get (fake_env [] not_found)
            \<lparr>HTTPClient = Some 5, MarshalFunc = None, UnmarshalFunc = None\<rparr> (Context 0)
            ''https://example/'' None [\<lambda>os. os\<lparr>Client := Some 7\<rparr>] (\<lambda>a. AnyNil)))) \<and>
   Client (buildOptions [\<lambda>os. os\<lparr>Client := Some 7\<rparr>]) = Some 7"
proof -
  let ?c = "\<lparr>HTTPClient = Some 5, MarshalFunc = None, UnmarshalFunc = None\<rparr> :: unit client"
  let ?out = "Client_Get (fake_env [] not_found) ?c (Context 0)
                ''https://example/'' None [\<lambda>os. os\<lparr>Client := Some 7\<rparr>] (\<lambda>a. AnyNil)"
  have 1: "?out \<in> client_calls (fake_env [] not_found) ?c (Context 0)
             ''https://example/'' AnyNil None [\<lambda>os. os\<lparr>Client := Some 7\<rparr>] (\<lambda>a. AnyNil)"
    by (simp add: client_calls_def)
  have 2: "(7, request_of ''GET'' ''https://example/'' [] Map.empty, Inr not_found) \<in>
             set (dispatches (calls ?out))"
    by (simp add: fake_defs)
  from transport_precedence [OF 1 2] 2 show ?thesis
    by (simp add: buildOptions_def)
qed

section \<open>Request construction\<close>

text \<open>
  Claim C1 says that a \<^verbatim>\<open>[]byte\<close> body of a POST, PUT or PATCH is the wire payload as it
  is and that the marshal function is not invoked for it. \<^verbatim>\<open>buildRequest\<close> has no such
  case: it passes every non-nil body to \<^verbatim>\<open>c.marshal\<close>. So for the body
  \<^verbatim>\<open>[0x7b,0x22,0x61,0x22,0x3a,0x31,0x7d]\<close>, whatever the client, the options and the
  collaborators are, the log of POST shows one marshal call, on these bytes; and with a
  marshal function that returns the four bytes of \<^verbatim>\<open>null\<close> the request handed to the
  transport carries those four bytes, not the seven of the body. (With the default
  \<^verbatim>\<open>json.Marshal\<close> the payload is the quoted base64 text of the bytes.)
\<close>

theorem Post_marshals_a_byte_body:
  "marshalled (calls (Client_Post env c ctx url
       (AnyBytes [0x7b, 0x22, 0x61, 0x22, 0x3a, 0x31, 0x7d]) result opts hp)) =
     [(AnyBytes [0x7b, 0x22, 0x61, 0x22, 0x3a, 0x31, 0x7d],
       fst (marshal env c (AnyBytes [0x7b, 0x22, 0x61, 0x22, 0x3a, 0x31, 0x7d])))] \<and>
   dispatches (calls (Client_Post (fake_env [] not_found)
       (constant_marshal [0x6e, 0x75, 0x6c, 0x6c]) (Context 0) ''https://example/''
       (AnyBytes [0x7b, 0x22, 0x61, 0x22, 0x3a, 0x31, 0x7d]) None [] (\<lambda>a. AnyNil))) =
     [(0, request_of ''POST'' ''https://example/'' [0x6e, 0x75, 0x6c, 0x6c]
            [''Content-Type'' \<mapsto> [''application/json'']], Inr not_found)]"
proof -
  let ?bs = "AnyBytes [0x7b, 0x22, 0x61, 0x22, 0x3a, 0x31, 0x7d] :: 'a any"
  let ?br = "buildRequest env c ctx ''POST'' url ?bs (buildOptions opts)"
  have ev: "snd ?br = [EvMarshal ?bs (fst (marshal env c ?bs))]"
    by (simp add: buildRequest_events)
  have "marshalled (calls (Client_Post env c ctx url ?bs result opts hp)) =
          [(?bs, fst (marshal env c ?bs))]"
  proof (cases ?br)
    case (Pair r evs)
    with ev have evs: "evs = [EvMarshal ?bs (fst (marshal env c ?bs))]" by simp
    show ?thesis
      by (cases r)
        (simp_all add: Client_Post_dispatch Pair evs dispatch_calls split: sum.splits)
  qed
  moreover have "dispatches (calls (Client_Post (fake_env [] not_found)
       (constant_marshal [0x6e, 0x75, 0x6c, 0x6c]) (Context 0) ''https://example/''
       (AnyBytes [0x7b, 0x22, 0x61, 0x22, 0x3a, 0x31, 0x7d]) None [] (\<lambda>a. AnyNil))) =
     [(0, request_of ''POST'' ''https://example/'' [0x6e, 0x75, 0x6c, 0x6c]
            [''Content-Type'' \<mapsto> [''application/json'']], Inr not_found)]"
    by (simp add: fake_defs constant_marshal_def)
  ultimately show ?thesis by simp
qed

text \<open>
  Claim C7. When the body of a POST or PATCH is non-nil and the marshal function fails
  on it with \<open>e\<close>, the call returns "failed to create POST request" (or PATCH) wrapping
  "failed to marshal request body" wrapping \<open>e\<close>, leaves the store as it was, and its log
  holds the marshal call alone: the transport is never invoked. The same holds for PUT
  (as modelled from the specification, \<^verbatim>\<open>(*Client).Put\<close> not being in the sources) for
  every body that reaches its marshal step, that is, every body that is not a \<^verbatim>\<open>[]byte\<close>.
\<close>

theorem marshal_failure_aborts:
  assumes "body \<noteq> AnyNil" and "fst (marshal env c body) = Inl e"
  shows "Client_Post env c ctx url body result opts hp =
           \<lparr>ret = Some (Wrap ''failed to create POST request''
                          (Wrap ''failed to marshal request body'' e)),
            mem = hp, calls = [EvMarshal body (Inl e)]\<rparr> \<and>
         Client_Patch env c ctx url body result opts hp =
           \<lparr>ret = Some (Wrap ''failed to create PATCH request''
                          (Wrap ''failed to marshal request body'' e)),
            mem = hp, calls = [EvMarshal body (Inl e)]\<rparr> \<and>
         ((\<forall>bs. body \<noteq> AnyBytes bs) \<longrightarrow>
          Client_Put env c ctx url body result opts hp =
           \<lparr>ret = Some (Wrap ''failed to create PUT request''
                          (Wrap ''failed to marshal request body'' e)),
            mem = hp, calls = [EvMarshal body (Inl e)]\<rparr>) \<and>
         dispatches (calls (Client_Post env c ctx url body result opts hp)) = [] \<and>
         dispatches (calls (Client_Patch env c ctx url body result opts hp)) = [] \<and>
         ((\<forall>bs. body \<noteq> AnyBytes bs) \<longrightarrow>
          dispatches (calls (Client_Put env c ctx url body result opts hp)) = [])"
proof -
  from assms have m: "marshal env c body = (Inl e, [EvMarshal body (Inl e)])"
    by (auto simp: marshal_def Let_def)
  with assms(1) have br: "\<And>verb. buildRequest env c ctx verb url body (buildOptions opts) =
      (Inl (Wrap ''failed to marshal request body'' e), [EvMarshal body (Inl e)])"
    by (simp add: buildRequest_def)
  have "Client_Post env c ctx url body result opts hp =
           \<lparr>ret = Some (Wrap ''failed to create POST request''
                          (Wrap ''failed to marshal request body'' e)),
            mem = hp, calls = [EvMarshal body (Inl e)]\<rparr>"
    by (simp add: Client_Post_dispatch br)
  moreover have "Client_Patch env c ctx url body result opts hp =
           \<lparr>ret = Some (Wrap ''failed to create PATCH request''
                          (Wrap ''failed to marshal request body'' e)),
            mem = hp, calls = [EvMarshal body (Inl e)]\<rparr>"
    by (simp add: Client_Patch_dispatch br)
  moreover have "(\<forall>bs. body \<noteq> AnyBytes bs) \<longrightarrow>
          Client_Put env c ctx url body result opts hp =
           \<lparr>ret = Some (Wrap ''failed to create PUT request''
                          (Wrap ''failed to marshal request body'' e)),
            mem = hp, calls = [EvMarshal body (Inl e)]\<rparr>"
    using assms(1) m by (cases body) (simp_all add: Client_Put_def Let_def)
  ultimately show ?thesis by simp
qed

theorem marshal_failure_aborts_witness:
  "fst (marshal (fake_env [] not_found) failing_marshal (AnyVal ())) =
     Inl (Error ''json: unsupported type'') \<and>
   ret (Client_Post (fake_env [] not_found) failing_marshal (Context 0) ''https://example/''
          (AnyVal ()) None [] (\<lambda>a. AnyNil)) =
     Some (Wrap ''failed to create POST request''
            (Wrap ''failed to marshal request body'' (Error ''json: unsupported type''))) \<and>
   dispatches (calls (Client_Put (fake_env [] not_found) failing_marshal (Context 0)
          ''https://example/'' (AnyVal ()) None [] (\<lambda>a. AnyNil))) = []"
proof -
  have 1: "AnyVal () \<noteq> (AnyNil :: unit any)" by simp
  have 2: "fst (marshal (fake_env [] not_found) failing_marshal (AnyVal ())) =
             Inl (Error ''json: unsupported type'')"
    by (simp add: marshal_def failing_marshal_def Let_def)
  have 3: "\<forall>bs. AnyVal () \<noteq> (AnyBytes bs :: unit any)" by simp
  from marshal_failure_aborts [OF 1 2, of "Context 0" "''https://example/''" None "[]" "\<lambda>a. AnyNil"]
    2 3 show ?thesis by simp
qed

text \<open>
  Claim C6. Every request that POST or PATCH hands to a transport has Content-Type
  \<^verbatim>\<open>application/json\<close>, whatever the options are, so also when they set another
  Content-Type: the value is set after the option headers and replaces them. The request
  that GET or DELETE hands to a transport is exactly the empty-header request with the
  option headers applied; it carries no header that the options did not set, so no
  Content-Type unless the caller gave one. PUT (as modelled from the specification)
  likewise carries no header that the options did not set.
\<close>

theorem content_type_forced_for_post_and_patch_only:
  "((h, req, x) \<in> set (dispatches (calls (Client_Post env c ctx url body result opts hp))) \<longrightarrow>
      Header req (CanonicalMIMEHeaderKey env ''Content-Type'') = Some [''application/json'']) \<and>
   ((h, req, x) \<in> set (dispatches (calls (Client_Patch env c ctx url body result opts hp))) \<longrightarrow>
      Header req (CanonicalMIMEHeaderKey env ''Content-Type'') = Some [''application/json'']) \<and>
   ((h, req, x) \<in> set (dispatches (calls (Client_Get env c ctx url result opts hp))) \<longrightarrow>
      req = applyHeaders env (Headers (buildOptions opts))
              \<lparr>Ctx = ctx, Method = ''GET'', URL = url, Body = [], Header = Map.empty\<rparr> \<and>
      (\<forall>k. k \<notin> header_keys env (Headers (buildOptions opts)) \<longrightarrow> Header req k = None)) \<and>
   ((h, req, x) \<in> set (dispatches (calls (Client_Delete env c ctx url result opts hp))) \<longrightarrow>
      req = applyHeaders env (Headers (buildOptions opts))
              \<lparr>Ctx = ctx, Method = ''DELETE'', URL = url, Body = [], Header = Map.empty\<rparr> \<and>
      (\<forall>k. k \<notin> header_keys env (Headers (buildOptions opts)) \<longrightarrow> Header req k = None)) \<and>
   ((h, req, x) \<in> set (dispatches (calls (Client_Put env c ctx url body result opts hp))) \<longrightarrow>
      (\<forall>k. k \<notin> header_keys env (Headers (buildOptions opts)) \<longrightarrow> Header req k = None))"
proof (intro conjI impI allI)
  assume "(h, req, x) \<in> set (dispatches (calls (Client_Post env c ctx url body result opts hp)))"
  from Client_Post_request [OF this]
  show "Header req (CanonicalMIMEHeaderKey env ''Content-Type'') = Some [''application/json'']"
    by (auto simp: Header_Set_def)
next
  assume "(h, req, x) \<in> set (dispatches (calls (Client_Patch env c ctx url body result opts hp)))"
  from Client_Patch_request [OF this]
  show "Header req (CanonicalMIMEHeaderKey env ''Content-Type'') = Some [''application/json'']"
    by (auto simp: Header_Set_def)
next
  assume "(h, req, x) \<in> set (dispatches (calls (Client_Get env c ctx url result opts hp)))"
  from Client_Get_request [OF this]
  show "req = applyHeaders env (Headers (buildOptions opts))
              \<lparr>Ctx = ctx, Method = ''GET'', URL = url, Body = [], Header = Map.empty\<rparr>" .
next
  fix k
  assume "(h, req, x) \<in> set (dispatches (calls (Client_Get env c ctx url result opts hp)))"
    and "k \<notin> header_keys env (Headers (buildOptions opts))"
  from Client_Get_request [OF this(1)] applyHeaders_other [OF this(2)]
  show "Header req k = None" by simp
next
  assume "(h, req, x) \<in> set (dispatches (calls (Client_Delete env c ctx url result opts hp)))"
  from Client_Delete_request [OF this]
  show "req = applyHeaders env (Headers (buildOptions opts))
              \<lparr>Ctx = ctx, Method = ''DELETE'', URL = url, Body = [], Header = Map.empty\<rparr>" .
next
  fix k
  assume "(h, req, x) \<in> set (dispatches (calls (Client_Delete env c ctx url result opts hp)))"
    and "k \<notin> header_keys env (Headers (buildOptions opts))"
  from Client_Delete_request [OF this(1)] applyHeaders_other [OF this(2)]
  show "Header req k = None" by simp
next
  fix k
  assume "(h, req, x) \<in> set (dispatches (calls (Client_Put env c ctx url body result opts hp)))"
    and "k \<notin> header_keys env (Headers (buildOptions opts))"
  from Client_Put_shape [OF this(1)] applyHeaders_other [OF this(2)]
  show "Header req k = None" by auto
qed

theorem content_type_forced_for_post_and_patch_only_witness:
  "(0, request_of ''POST'' ''https://example/'' [] [''Content-Type'' \<mapsto> [''application/json'']],
      Inr not_found) \<in>
     set (dispatches (calls (Client_Post (fake_env [''Content-Type''] not_found) defaultClient
            (Context 0) ''https://example/'' (AnyVal ()) None
            [WithHeader ''Content-Type'' ''text/plain''] (\<lambda>a. AnyNil)))) \<and>
   (0, request_of ''PATCH'' ''https://example/'' [] [''Content-Type'' \<mapsto> [''application/json'']],
      Inr not_found) \<in>
     set (dispatches (calls (Client_Patch (fake_env [''Content-Type''] not_found) defaultClient
            (Context 0) ''https://example/'' (AnyVal ()) None
            [WithHeader ''Content-Type'' ''text/plain''] (\<lambda>a. AnyNil)))) \<and>
   (0, request_of ''GET'' ''https://example/'' [] [''Content-Type'' \<mapsto> [''text/plain'']],
      Inr not_found) \<in>
     set (dispatches (calls (Client_Get (fake_env [''Content-Type''] not_found) defaultClient
            (Context 0) ''https://example/'' None
            [WithHeader ''Content-Type'' ''text/plain''] (\<lambda>a. AnyNil)))) \<and>
   (0, request_of ''DELETE'' ''https://example/'' [] Map.empty, Inr not_found) \<in>
     set (dispatches (calls (Client_Delete (fake_env [] not_found) defaultClient
            (Context 0) ''https://example/'' None [] (\<lambda>a. AnyNil)))) \<and>
   (0, request_of ''PUT'' ''https://example/'' [] Map.empty, Inr not_found) \<in>
     set (dispatches (calls (Client_Put (fake_env [] not_found) defaultClient
            (Context 0) ''https://example/'' (AnyVal ()) None [] (\<lambda>a. AnyNil)))) \<and>
   ''Content-Type'' \<notin> header_keys (fake_env [] not_found) (Headers (buildOptions [])) \<and>
   Header (request_of ''POST'' ''https://example/'' [] [''Content-Type'' \<mapsto> [''application/json'']])
     (CanonicalMIMEHeaderKey (fake_env [''Content-Type''] not_found) ''Content-Type'') =
     Some [''application/json''] \<and>
   Header (request_of ''DELETE'' ''https://example/'' [] Map.empty) ''Content-Type'' = None"
proof -
  let ?post = "request_of ''POST'' ''https://example/'' [] [''Content-Type'' \<mapsto> [''application/json'']]"
  let ?patch = "request_of ''PATCH'' ''https://example/'' [] [''Content-Type'' \<mapsto> [''application/json'']]"
  let ?get = "request_of ''GET'' ''https://example/'' [] [''Content-Type'' \<mapsto> [''text/plain'']]"
  let ?delete = "request_of ''DELETE'' ''https://example/'' [] Map.empty"
  let ?put = "request_of ''PUT'' ''https://example/'' [] Map.empty"
  let ?ct = "[WithHeader ''Content-Type'' ''text/plain'']"
  let ?hp = "\<lambda>a. AnyNil :: unit any"
  have 1: "(0, ?post, Inr not_found) \<in>
     set (dispatches (calls (Client_Post (fake_env [''Content-Type''] not_found) defaultClient
            (Context 0) ''https://example/'' (AnyVal ()) None ?ct ?hp)))"
    by (simp add: fake_defs)
  have 2: "(0, ?patch, Inr not_found) \<in>
     set (dispatches (calls (Client_Patch (fake_env [''Content-Type''] not_found) defaultClient
            (Context 0) ''https://example/'' (AnyVal ()) None ?ct ?hp)))"
    by (simp add: fake_defs)
  have 3: "(0, ?get, Inr not_found) \<in>
     set (dispatches (calls (Client_Get (fake_env [''Content-Type''] not_found) defaultClient
            (Context 0) ''https://example/'' None ?ct ?hp)))"
    by (simp add: fake_defs)
  have 4: "(0, ?delete, Inr not_found) \<in>
     set (dispatches (calls (Client_Delete (fake_env [] not_found) defaultClient
            (Context 0) ''https://example/'' None [] ?hp)))"
    by (simp add: fake_defs)
  have 5: "(0, ?put, Inr not_found) \<in>
     set (dispatches (calls (Client_Put (fake_env [] not_found) defaultClient
            (Context 0) ''https://example/'' (AnyVal ()) None [] ?hp)))"
    by (simp add: fake_defs)
  have 6: "''Content-Type'' \<notin> header_keys (fake_env [] not_found) (Headers (buildOptions []))"
    by (simp add: header_keys_def buildOptions_def)
  note t = content_type_forced_for_post_and_patch_only
  from t [of 0 ?post "Inr not_found" "fake_env [''Content-Type''] not_found" defaultClient
            "Context 0" "''https://example/''" "AnyVal ()" None ?ct ?hp]
       t [of 0 ?delete "Inr not_found" "fake_env [] not_found" defaultClient
            "Context 0" "''https://example/''" "AnyVal ()" None "[]" ?hp]
       1 2 3 4 5 6
  show ?thesis by blast
qed

section \<open>Options\<close>



text \<open>
  Claim C10. Options are applied from left to right: the options built from a list
  followed by one more option are that option applied to the options built from the
  list. A later \<^verbatim>\<open>WithHeader\<close> for the same key, or a later \<^verbatim>\<open>WithStatus\<close>, wins. In a call
  with \<^verbatim>\<open>WithHeader(key, v1)\<close> followed by \<^verbatim>\<open>WithHeader(key, v2)\<close>, the request handed to
  the transport has the single value \<open>v2\<close> under \<open>key\<close> and no other header (but the
  Content-Type that POST and PATCH set), provided that ranging over the one-key map
  yields that key.
\<close>

theorem later_option_wins:
  "buildOptions (opts @ [opt]) = opt (buildOptions opts) \<and>
   Headers (buildOptions (opts @ [WithHeader key v1, WithHeader key v2])) =
     Headers (buildOptions (opts @ [WithHeader key v2])) \<and>
   (\<exists>m. Headers (buildOptions (opts @ [WithHeader key v2])) = Some m \<and> m key = Some v2) \<and>
   Status (buildOptions (opts @ [WithStatus p1, WithStatus p2])) = p2 \<and>
   (set (range_order env [key \<mapsto> v2]) = {key} \<longrightarrow>
      ((h, req, x) \<in> set (dispatches (calls
          (Client_Get env c ctx url result [WithHeader key v1, WithHeader key v2] hp))) \<longrightarrow>
        Header req = [CanonicalMIMEHeaderKey env key \<mapsto> [v2]]) \<and>
      ((h, req, x) \<in> set (dispatches (calls
          (Client_Delete env c ctx url result [WithHeader key v1, WithHeader key v2] hp))) \<longrightarrow>
        Header req = [CanonicalMIMEHeaderKey env key \<mapsto> [v2]]) \<and>
      ((h, req, x) \<in> set (dispatches (calls
          (Client_Post env c ctx url body result [WithHeader key v1, WithHeader key v2] hp))) \<longrightarrow>
        Header req = [CanonicalMIMEHeaderKey env key \<mapsto> [v2],
                      CanonicalMIMEHeaderKey env ''Content-Type'' \<mapsto> [''application/json'']]) \<and>
      ((h, req, x) \<in> set (dispatches (calls
          (Client_Patch env c ctx url body result [WithHeader key v1, WithHeader key v2] hp))) \<longrightarrow>
        Header req = [CanonicalMIMEHeaderKey env key \<mapsto> [v2],
                      CanonicalMIMEHeaderKey env ''Content-Type'' \<mapsto> [''application/json'']]))"
proof -
  let ?two = "[WithHeader key v1, WithHeader key v2]"
  have a: "buildOptions (opts @ [opt]) = opt (buildOptions opts)"
    by (rule buildOptions_snoc)
  have b: "Headers (buildOptions (opts @ [WithHeader key v1, WithHeader key v2])) =
     Headers (buildOptions (opts @ [WithHeader key v2]))"
    by (simp add: buildOptions_def WithHeader_def split: option.splits)
  have c: "\<exists>m. Headers (buildOptions (opts @ [WithHeader key v2])) = Some m \<and> m key = Some v2"
    by (simp add: buildOptions_def WithHeader_def split: option.splits)
  have d: "Status (buildOptions (opts @ [WithStatus p1, WithStatus p2])) = p2"
    by (simp add: buildOptions_def WithStatus_def)
  have e: "Header req = [CanonicalMIMEHeaderKey env key \<mapsto> [v2]]"
    if "set (range_order env [key \<mapsto> v2]) = {key}"
      and "(h, req, x) \<in> set (dispatches (calls (Client_Get env c ctx url result ?two hp)))"
    using Client_Get_request [OF that(2)] applyHeaders_single [OF that(1)]
    by (simp add: Headers_WithHeader_twice Header_Set_def)
  have f: "Header req = [CanonicalMIMEHeaderKey env key \<mapsto> [v2]]"
    if "set (range_order env [key \<mapsto> v2]) = {key}"
      and "(h, req, x) \<in> set (dispatches (calls (Client_Delete env c ctx url result ?two hp)))"
    using Client_Delete_request [OF that(2)] applyHeaders_single [OF that(1)]
    by (simp add: Headers_WithHeader_twice Header_Set_def)
  have g: "Header req = [CanonicalMIMEHeaderKey env key \<mapsto> [v2],
                      CanonicalMIMEHeaderKey env ''Content-Type'' \<mapsto> [''application/json'']]"
    if "set (range_order env [key \<mapsto> v2]) = {key}"
      and "(h, req, x) \<in> set (dispatches (calls (Client_Post env c ctx url body result ?two hp)))"
    using Client_Post_request [OF that(2)] applyHeaders_single [OF that(1)]
    by (auto simp: Headers_WithHeader_twice Header_Set_def)
  have i: "Header req = [CanonicalMIMEHeaderKey env key \<mapsto> [v2],
                      CanonicalMIMEHeaderKey env ''Content-Type'' \<mapsto> [''application/json'']]"
    if "set (range_order env [key \<mapsto> v2]) = {key}"
      and "(h, req, x) \<in> set (dispatches (calls (Client_Patch env c ctx url body result ?two hp)))"
    using Client_Patch_request [OF that(2)] applyHeaders_single [OF that(1)]
    by (auto simp: Headers_WithHeader_twice Header_Set_def)
  from a b c d e f g i show ?thesis by blast
qed

theorem later_option_wins_witness:
  "set (range_order (fake_env [''X''] not_found) [''X'' \<mapsto> ''2'']) = {''X''} \<and>
   (0, request_of ''GET'' ''https://example/'' [] [''X'' \<mapsto> [''2'']], Inr not_found) \<in>
     set (dispatches (calls (Client_Get (fake_env [''X''] not_found) defaultClient (Context 0)
            ''https://example/'' None [WithHeader ''X'' ''1'', WithHeader ''X'' ''2'']
            (\<lambda>a. AnyNil)))) \<and>
   Header (request_of ''GET'' ''https://example/'' [] [''X'' \<mapsto> [''2'']]) =
     [CanonicalMIMEHeaderKey (fake_env [''X''] not_found) ''X'' \<mapsto> [''2'']]"
proof -
  let ?req = "request_of ''GET'' ''https://example/'' [] [''X'' \<mapsto> [''2'']]"
  have 1: "set (range_order (fake_env [''X''] not_found) [''X'' \<mapsto> ''2'']) = {''X''}"
    by (simp add: fake_env_def)
  have 2: "(0, ?req, Inr not_found) \<in>
     set (dispatches (calls (Client_Get (fake_env [''X''] not_found) defaultClient (Context 0)
            ''https://example/'' None [WithHeader ''X'' ''1'', WithHeader ''X'' ''2'']
            (\<lambda>a. AnyNil))))"
    by (simp add: fake_defs)
  from later_option_wins [where env = "fake_env [''X''] not_found" and key = "''X''"
      and ?v1.0 = "''1''" and ?v2.0 = "''2''" and h = 0 and req = ?req and x = "Inr not_found"
      and c = defaultClient and ctx = "Context 0" and url = "''https://example/''"
      and result = None and hp = "\<lambda>a. AnyNil"] 1 2
  show ?thesis by blast
qed

section \<open>The facade\<close>



end
